theory Spec2Isabelle
  imports Main "HOL-Library.Word"
begin

section \<open>stima: scraping scheduled power interruptions\<close>

text \<open>
  A shallow embedding of \<^verbatim>\<open>stima/exceptions.py\<close> and \<^verbatim>\<open>stima/scraper.py\<close>.
  The three libraries the scraper calls are not part of the repository and enter the
  model as follows.
  \<^item> \<^verbatim>\<open>requests.get\<close> is a field of the record \<open>world\<close>: a function from the URL
    to either an exception raised by the transport or a response.
  \<^item> \<^verbatim>\<open>bytes.decode("utf-8")\<close> and \<^verbatim>\<open>BeautifulSoup(content, "html.parser")\<close> are
    fields of \<open>world\<close> too; the parsed document is a tree of type \<open>node\<close>.
  \<^item> The queries on the tree (\<^verbatim>\<open>find\<close>, \<^verbatim>\<open>find_all\<close>, \<^verbatim>\<open>.string\<close>,
    \<^verbatim>\<open>get_text\<close>, \<^verbatim>\<open>get\<close>) are functions on \<open>node\<close> that follow bs4.
  A generator is modelled by its trace: the list of lines printed and records yielded, in
  order, and the way it ends (it returns, or an exception leaves it). The walk over the
  listing pages may not end; it is a partial function, and \<open>None\<close> is the walk that never
  ends. Python's bound on the depth of recursion is not modelled.
\<close>

subsection \<open>exceptions.py\<close>

text \<open>
  \<open>RequestError url code reason\<close> and \<open>WrongContentType message url content_type\<close>
  are the two classes of the repository. The other constructors are the exceptions of
  Python and of requests that the scraper's own expressions can raise.
\<close>

datatype error =
    RequestError string int string
  | WrongContentType string string string
  | AttributeError
  | IndexError
  | KeyError string
  | UnicodeDecodeError
  | RequestException string

definition digit_char :: "nat \<Rightarrow> char" where
  "digit_char d = ''0123456789'' ! d"

fun str_nat :: "nat \<Rightarrow> string" where
  "str_nat n = (if n < 10 then [digit_char n] else str_nat (n div 10) @ [digit_char (n mod 10)])"

declare str_nat.simps [simp del]

definition str_int :: "int \<Rightarrow> string" where
  "str_int i = (if i < 0 then CHR ''-'' # str_nat (nat (- i)) else str_nat (nat i))"

text \<open>\<^verbatim>\<open>RequestError.__str__\<close>: \<^verbatim>\<open>"{reason} ({code}) on {url}"\<close>.\<close>

definition RequestError_str :: "string \<Rightarrow> int \<Rightarrow> string \<Rightarrow> string" where
  "RequestError_str url code rsn = rsn @ '' ('' @ str_int code @ '') on '' @ url"

subsection \<open>The parsed document\<close>

text \<open>
  A tag carries its name, the values of its \<^verbatim>\<open>class\<close> and \<^verbatim>\<open>rel\<close> attributes (bs4
  splits both at white space into lists; a missing attribute is the empty list), its
  \<^verbatim>\<open>href\<close> attribute if it has one, and its children. Comments and the other
  kinds of string that are not text are left out of the tree.
\<close>

datatype node =
    NavigableString string
  | Tag (tag_name: string) (tag_class: "string list") (tag_rel: "string list")
        (tag_href: "string option") (tag_contents: "node list")

text \<open>\<^verbatim>\<open>Tag.descendants\<close>: every node below the tag, in document order.\<close>

fun descendants :: "node \<Rightarrow> node list" where
  "descendants (NavigableString s) = []"
| "descendants (Tag n c r h cs) = concat (map (\<lambda>x. x # descendants x) cs)"

text \<open>The keyword arguments of a search: none, \<^verbatim>\<open>class_=c\<close>, or \<^verbatim>\<open>attrs={"rel": r}\<close>.\<close>

datatype criterion = AnyAttrs | ByClass string | ByRel string

fun matches :: "string \<Rightarrow> criterion \<Rightarrow> node \<Rightarrow> bool" where
  "matches nm cr (NavigableString s) = False"
| "matches nm AnyAttrs (Tag n c r h cs) = (n = nm)"
| "matches nm (ByClass k) (Tag n c r h cs) = (n = nm \<and> k \<in> set c)"
| "matches nm (ByRel k) (Tag n c r h cs) = (n = nm \<and> k \<in> set r)"

definition find_all :: "node \<Rightarrow> string \<Rightarrow> criterion \<Rightarrow> node list" where
  "find_all t nm cr = filter (matches nm cr) (descendants t)"

text \<open>\<^verbatim>\<open>Tag.find\<close>: the first match, or \<^verbatim>\<open>None\<close>.\<close>

definition find_tag :: "node \<Rightarrow> string \<Rightarrow> criterion \<Rightarrow> node option" where
  "find_tag t nm cr = (case find_all t nm cr of [] \<Rightarrow> None | x # _ \<Rightarrow> Some x)"

text \<open>
  \<^verbatim>\<open>Tag.string\<close>: the only child if it is a string, the \<^verbatim>\<open>.string\<close> of the only child
  if it is a tag, and \<^verbatim>\<open>None\<close> when the tag has no child or more than one.
\<close>

fun string_of :: "node \<Rightarrow> string option" where
  "string_of (NavigableString s) = Some s"
| "string_of (Tag n c r h [x]) = string_of x"
| "string_of (Tag n c r h cs) = None"

text \<open>\<^verbatim>\<open>Tag.get_text()\<close>: all the strings below the tag, joined.\<close>

fun get_text :: "node \<Rightarrow> string" where
  "get_text (NavigableString s) = s"
| "get_text (Tag n c r h cs) = concat (map get_text cs)"

text \<open>\<^verbatim>\<open>tag.get("href")\<close>; the searches return tags only.\<close>

fun get_href :: "node \<Rightarrow> string option" where
  "get_href (Tag n c r h cs) = h"
| "get_href (NavigableString s) = None"

subsection \<open>The world: requests and the parsers\<close>

type_synonym byte = "8 word"

text \<open>
  The fields of a response that the scraper reads. \<open>headers\<close> is keyed by the
  lower-cased header name, as the case-insensitive dictionary of requests stores it.
\<close>

record response =
  resp_url :: string
  status_code :: int
  reason :: string
  headers :: "string \<rightharpoonup> string"
  content :: "byte list"

record world =
  requests_get :: "string \<Rightarrow> error + response"
  decode_utf8 :: "byte list \<Rightarrow> string option"
  BeautifulSoup :: "string \<Rightarrow> node"

subsection \<open>scraper.py\<close>

definition KPLC_INTERRUPTIONS_URL :: string where
  "KPLC_INTERRUPTIONS_URL = ''https://kplc.co.ke/category/view/50/planned-power-interruptions''"

definition make_request :: "world \<Rightarrow> string \<Rightarrow> error + string" where
  "make_request w url =
     (case requests_get w url of
        Inl e \<Rightarrow> Inl e
      | Inr response \<Rightarrow>
          if status_code response \<noteq> 200
          then Inl (RequestError (resp_url response) (status_code response) (reason response))
          else (case decode_utf8 w (content response) of
                  None \<Rightarrow> Inl UnicodeDecodeError
                | Some text \<Rightarrow> Inr text))"

text \<open>\<^verbatim>\<open>url.rsplit('/', 1)\<close>, as the pair of the parts when there is a \<^verbatim>\<open>/\<close>.\<close>

fun rsplit_slash :: "string \<Rightarrow> (string \<times> string) option" where
  "rsplit_slash [] = None"
| "rsplit_slash (c # cs) =
     (case rsplit_slash cs of
        Some (a, b) \<Rightarrow> Some (c # a, b)
      | None \<Rightarrow> if c = CHR ''/'' then Some ([], cs) else None)"

text \<open>The temporary file: its bytes and the position of the handle.\<close>

record tempfile =
  file_data :: "byte list"
  file_pos :: nat

definition NamedTemporaryFile :: tempfile where
  "NamedTemporaryFile = \<lparr>file_data = [], file_pos = 0\<rparr>"

definition file_write :: "byte list \<Rightarrow> tempfile \<Rightarrow> tempfile" where
  "file_write chunk f =
     \<lparr>file_data = take (file_pos f) (file_data f) @ chunk
                   @ drop (file_pos f + length chunk) (file_data f),
      file_pos = file_pos f + length chunk\<rparr>"

definition file_seek :: "nat \<Rightarrow> tempfile \<Rightarrow> tempfile" where
  "file_seek p f = f\<lparr>file_pos := p\<rparr>"

text \<open>
  \<^verbatim>\<open>response.iter_content(chunk_size)\<close>: the body in pieces of \<open>chunk_size\<close> bytes, the
  last one possibly shorter; no piece for an empty body.
\<close>

function iter_content :: "nat \<Rightarrow> byte list \<Rightarrow> byte list list" where
  "iter_content chunk_size bs =
     (if chunk_size = 0 \<or> bs = [] then []
      else take chunk_size bs # iter_content chunk_size (drop chunk_size bs))"
  by pat_completeness auto
termination
  by (relation "measure (\<lambda>(n, bs). length bs)") auto

declare iter_content.simps [simp del]

definition download_pdf :: "world \<Rightarrow> string \<Rightarrow> error + (string \<times> tempfile)" where
  "download_pdf w url =
     (case rsplit_slash url of
        None \<Rightarrow> Inl IndexError
      | Some (_, pdf_filename) \<Rightarrow>
          (case requests_get w url of
             Inl e \<Rightarrow> Inl e
           | Inr response \<Rightarrow>
               if status_code response \<noteq> 200
               then Inl (RequestError url (status_code response) (reason response))
               else (case headers response ''content-type'' of
                       None \<Rightarrow> Inl (KeyError ''content-type'')
                     | Some content_type \<Rightarrow>
                         if content_type \<noteq> ''application/pdf''
                         then Inl (WrongContentType ''File is not a PDF''
                                     (resp_url response) content_type)
                         else Inr (pdf_filename,
                                   file_seek 0 (fold file_write (iter_content 4096 (content response))
                                             NamedTemporaryFile)))))"

subsection \<open>Generators as traces\<close>

datatype 'r event = Print string | Yield 'r

datatype outcome = Return | Raise error

record listing =
  title :: "string option"
  link :: "string option"

text \<open>\<^verbatim>\<open>url or KPLC_INTERRUPTIONS_URL\<close>: \<^verbatim>\<open>None\<close> and the empty string are false.\<close>

definition url_or_default :: "string option \<Rightarrow> string" where
  "url_or_default url =
     (case url of
        None \<Rightarrow> KPLC_INTERRUPTIONS_URL
      | Some u \<Rightarrow> if u = [] then KPLC_INTERRUPTIONS_URL else u)"

text \<open>
  The \<^verbatim>\<open>for\<close> loop over the headings: \<^verbatim>\<open>h2_tag.a\<close> is \<^verbatim>\<open>h2_tag.find("a")\<close>, and
  \<^verbatim>\<open>.get\<close> on \<^verbatim>\<open>None\<close> raises.
\<close>

fun yield_headings :: "node list \<Rightarrow> listing event list \<times> outcome" where
  "yield_headings [] = ([], Return)"
| "yield_headings (h2_tag # rest) =
     (case find_tag h2_tag ''a'' AnyAttrs of
        None \<Rightarrow> ([], Raise AttributeError)
      | Some a \<Rightarrow>
          (case yield_headings rest of
             (evs, out) \<Rightarrow>
               (Yield \<lparr>title = string_of h2_tag, link = get_href a\<rparr> # evs, out)))"

text \<open>\<^verbatim>\<open>soup.find("main").find_all("h2", class_='generictitle')\<close>.\<close>

definition main_headings :: "node \<Rightarrow> error + node list" where
  "main_headings soup =
     (case find_tag soup ''main'' AnyAttrs of
        None \<Rightarrow> Inl AttributeError
      | Some m \<Rightarrow> Inr (find_all m ''h2'' (ByClass ''generictitle'')))"

text \<open>\<^verbatim>\<open>soup.find("ul", class_="pagination").find("a", attrs={"rel": "next"})\<close>.\<close>

definition next_anchor :: "node \<Rightarrow> error + node option" where
  "next_anchor soup =
     (case find_tag soup ''ul'' (ByClass ''pagination'') of
        None \<Rightarrow> Inl AttributeError
      | Some ul \<Rightarrow> Inr (find_tag ul ''a'' (ByRel ''next'')))"

text \<open>\<^verbatim>\<open>except RequestError as error: print("Error: {}".format(error)); raise\<close>.\<close>

fun on_request_error :: "error \<Rightarrow> 'r event list" where
  "on_request_error (RequestError u c r) = [Print (''Error: '' @ RequestError_str u c r)]"
| "on_request_error e = []"

partial_function (option)
  scrape_interruptions :: "world \<Rightarrow> string option \<Rightarrow> (listing event list \<times> outcome) option"
where
  "scrape_interruptions w url =
     (case make_request w (url_or_default url) of
        Inl e \<Rightarrow> Some (on_request_error e, Raise e)
      | Inr text \<Rightarrow>
          (case main_headings (BeautifulSoup w text) of
             Inl e \<Rightarrow> Some ([], Raise e)
           | Inr h2_tags \<Rightarrow>
               (case yield_headings h2_tags of
                  (evs, Raise e) \<Rightarrow> Some (evs, Raise e)
                | (evs, Return) \<Rightarrow>
                    (case next_anchor (BeautifulSoup w text) of
                       Inl e \<Rightarrow> Some (evs, Raise e)
                     | Inr None \<Rightarrow> Some (evs, Return)
                     | Inr (Some a_tag) \<Rightarrow>
                         Option.bind (scrape_interruptions w (get_href a_tag))
                           (\<lambda>(evs', out). Some (evs @ evs', out))))))"

declare scrape_interruptions.simps [code]

record attachment =
  parent_link :: string
  pdf_filename :: string
  pdf_file_temp :: tempfile
  download_link_text :: string
  download_link :: string


text \<open>
  \<^verbatim>\<open>except (RequestError, WrongContentType) as error: print("Error: {}".format(error))\<close>;
  the text of a \<open>WrongContentType\<close> is its message. Any other exception is not caught.
\<close>

fun caught :: "error \<Rightarrow> string option" where
  "caught (RequestError u c r) = Some (''Error: '' @ RequestError_str u c r)"
| "caught (WrongContentType message u ct) = Some (''Error: '' @ message)"
| "caught e = None"

text \<open>
  The \<^verbatim>\<open>for\<close> loop over \<^verbatim>\<open>a_tags\<close>. An anchor without \<^verbatim>\<open>href\<close> passes \<^verbatim>\<open>None\<close> to
  \<^verbatim>\<open>download_pdf\<close>, whose first line then raises \<open>AttributeError\<close>.
\<close>

fun download_all :: "world \<Rightarrow> string \<Rightarrow> node list \<Rightarrow> attachment event list \<times> outcome" where
  "download_all w url [] = ([], Return)"
| "download_all w url (a_tag # rest) =
     (case get_href a_tag of
        None \<Rightarrow> ([], Raise AttributeError)
      | Some dl \<Rightarrow>
          (case download_pdf w dl of
             Inl e \<Rightarrow>
               (case caught e of
                  None \<Rightarrow> ([], Raise e)
                | Some line \<Rightarrow>
                    (case download_all w url rest of (evs, out) \<Rightarrow> (Print line # evs, out)))
           | Inr (fname, ftemp) \<Rightarrow>
               (case download_all w url rest of
                  (evs, out) \<Rightarrow>
                    (Yield \<lparr>parent_link = url, pdf_filename = fname, pdf_file_temp = ftemp,
                            download_link_text = get_text a_tag, download_link = dl\<rparr> # evs,
                     out))))"


subsection \<open>Notions used to state the properties\<close>

text \<open>The document of a listing page, when fetching and decoding it succeed.\<close>

definition fetch_soup :: "world \<Rightarrow> string option \<Rightarrow> node option" where
  "fetch_soup w url =
     (case make_request w (url_or_default url) of
        Inl e \<Rightarrow> None
      | Inr body \<Rightarrow> Some (BeautifulSoup w body))"

definition has_anchor :: "node \<Rightarrow> bool" where
  "has_anchor h \<longleftrightarrow> find_tag h ''a'' AnyAttrs \<noteq> None"

text \<open>The record of a heading: its \<^verbatim>\<open>.string\<close> and the \<^verbatim>\<open>href\<close> of its first anchor.\<close>

definition listing_of :: "node \<Rightarrow> listing" where
  "listing_of h =
     \<lparr>title = string_of h,
      link = (case find_tag h ''a'' AnyAttrs of None \<Rightarrow> None | Some a \<Rightarrow> get_href a)\<rparr>"

text \<open>The qualifying headings of a page, in document order; none without a main region.\<close>

definition qualifying_headings :: "node \<Rightarrow> node list" where
  "qualifying_headings soup = (case main_headings soup of Inl e \<Rightarrow> [] | Inr hs \<Rightarrow> hs)"

text \<open>
  The markup the scraper expects of a listing page: a main region, and an anchor in every
  qualifying heading.
\<close>

definition headings_ok :: "node \<Rightarrow> bool" where
  "headings_ok soup \<longleftrightarrow>
     (case main_headings soup of Inl e \<Rightarrow> False | Inr hs \<Rightarrow> list_all has_anchor hs)"

text \<open>
  \<open>walk_path w url ps url'\<close>: starting at \<open>url\<close>, the site serves the pages \<open>ps\<close> one
  after the other, each with the expected markup and a next anchor that leads to the
  following one, the last to \<open>url'\<close>.
\<close>

fun walk_path :: "world \<Rightarrow> string option \<Rightarrow> node list \<Rightarrow> string option \<Rightarrow> bool" where
  "walk_path w url [] url' \<longleftrightarrow> url = url'"
| "walk_path w url (p # ps) url' \<longleftrightarrow>
     fetch_soup w url = Some p \<and> headings_ok p \<and>
     (case next_anchor p of
        Inr (Some a_tag) \<Rightarrow> walk_path w (get_href a_tag) ps url'
      | _ \<Rightarrow> False)"

definition page_events :: "node \<Rightarrow> listing event list" where
  "page_events soup = map (\<lambda>h. Yield (listing_of h)) (qualifying_headings soup)"





subsection \<open>A small site\<close>

definition heading :: "string \<Rightarrow> string \<Rightarrow> node" where
  "heading t l = Tag ''h2'' [''generictitle''] [] None [Tag ''a'' [] [] (Some l) [NavigableString t]]"

text \<open>A heading with a string beside its anchor.\<close>

definition mixed_heading :: node where
  "mixed_heading =
     Tag ''h2'' [''generictitle''] [] None
       [Tag ''a'' [] [] (Some ''/x'') [NavigableString ''Foo''], NavigableString '' bar'']"

definition pagination :: "node list \<Rightarrow> node" where
  "pagination anchors = Tag ''ul'' [''pagination''] [] None [Tag ''li'' [] [] None anchors]"

definition page1 :: node where
  "page1 = Tag ''[document]'' [] [] None
     [Tag ''main'' [] [] None
        [heading ''Interruptions - 20.06.2019'' ''/content/item/3071'',
         heading ''Interruptions - 13.06.2019'' ''/content/item/3070''],
      pagination [Tag ''a'' [] [''next''] (Some ''http://k/2'') [NavigableString ''>'']]]"

definition page2 :: node where
  "page2 = Tag ''[document]'' [] [] None
     [Tag ''main'' [] [] None [mixed_heading],
      pagination [Tag ''a'' [] [''prev''] (Some ''http://k/1'') [NavigableString ''<'']]]"

definition page3 :: node where
  "page3 = Tag ''[document]'' [] [] None
     [Tag ''main'' [] [] None [heading ''Interruptions - 06.06.2019'' ''/content/item/3069''],
      pagination [Tag ''a'' [] [''next''] (Some ''http://k/9'') [NavigableString ''>'']]]"

text \<open>A page without pagination list, and a page without main region.\<close>

definition page4 :: node where
  "page4 = Tag ''[document]'' [] [] None
     [Tag ''main'' [] [] None [heading ''Interruptions - 06.06.2019'' ''/content/item/3069'']]"

definition page5 :: node where
  "page5 = Tag ''[document]'' [] [] None
     [Tag ''div'' [] [] None [heading ''Interruptions - 06.06.2019'' ''/content/item/3069''],
      pagination []]"

definition doc_a :: node where
  "doc_a = Tag ''a'' [''docicon''] [] (Some ''http://k/f/a.pdf'') [NavigableString ''a.pdf'']"

definition doc_b :: node where
  "doc_b = Tag ''a'' [''docicon''] [] (Some ''http://k/f/b.pdf'') [NavigableString ''b.pdf'']"

definition doc_c :: node where
  "doc_c = Tag ''a'' [''docicon''] [] (Some ''http://k/f/c.pdf'') [NavigableString ''c.pdf'']"

definition doc_e :: node where
  "doc_e = Tag ''a'' [''download''] [] (Some ''http://k/f/e.pdf'') [NavigableString ''e.pdf'']"

definition doc_n :: node where
  "doc_n = Tag ''a'' [''docicon''] [] (Some ''http://k/f/n.pdf'') [NavigableString ''n.pdf'']"

text \<open>A detail page with both regions, and one with neither.\<close>

definition detail1 :: node where
  "detail1 = Tag ''[document]'' [] [] None
     [Tag ''div'' [''genericintro''] [] None [doc_e],
      Tag ''div'' [''attachments''] [] None [doc_a]]"

definition detail2 :: node where
  "detail2 = Tag ''[document]'' [] [] None [Tag ''p'' [] [] None [doc_a]]"

definition resp :: "string \<Rightarrow> int \<Rightarrow> string \<Rightarrow> (string \<rightharpoonup> string) \<Rightarrow> byte list \<Rightarrow> response" where
  "resp u c r h bs = \<lparr>resp_url = u, status_code = c, reason = r, headers = h, content = bs\<rparr>"

definition html :: "string \<rightharpoonup> string" where
  "html = [''content-type'' \<mapsto> ''text/html'']"

definition pdf :: "string \<rightharpoonup> string" where
  "pdf = [''content-type'' \<mapsto> ''application/pdf'']"

text \<open>
  The listing pages \<^verbatim>\<open>/1\<close> to \<^verbatim>\<open>/5\<close>, the detail pages \<^verbatim>\<open>/d\<close> and \<^verbatim>\<open>/q\<close>, and the
  files: \<^verbatim>\<open>a.pdf\<close> is a PDF of four bytes; \<^verbatim>\<open>b.pdf\<close> is served as HTML; \<^verbatim>\<open>e.pdf\<close> is an
  empty PDF; \<^verbatim>\<open>v.pdf\<close> declares a charset; \<^verbatim>\<open>n.pdf\<close> has no content type;
  \<^verbatim>\<open>r.pdf\<close> is redirected to a page that is not found, as is everything else.
\<close>

definition site_get :: "string \<Rightarrow> error + response" where
  "site_get u =
     (if u = ''http://k/1'' then Inr (resp u 200 ''OK'' html [1])
      else if u = ''http://k/2'' then Inr (resp u 200 ''OK'' html [2])
      else if u = ''http://k/3'' then Inr (resp u 200 ''OK'' html [3])
      else if u = ''http://k/4'' then Inr (resp u 200 ''OK'' html [4])
      else if u = ''http://k/5'' then Inr (resp u 200 ''OK'' html [5])
      else if u = ''http://k/d'' then Inr (resp u 200 ''OK'' html [6])
      else if u = ''http://k/q'' then Inr (resp u 200 ''OK'' html [7])
      else if u = ''http://k/f/a.pdf'' then Inr (resp u 200 ''OK'' pdf [37, 80, 68, 70])
      else if u = ''http://k/f/b.pdf'' then Inr (resp u 200 ''OK'' html [60])
      else if u = ''http://k/f/e.pdf'' then Inr (resp u 200 ''OK'' pdf [])
      else if u = ''http://k/f/v.pdf''
        then Inr (resp u 200 ''OK'' [''content-type'' \<mapsto> ''application/pdf;charset=utf-8''] [37])
      else if u = ''http://k/f/n.pdf'' then Inr (resp u 200 ''OK'' Map.empty [37])
      else if u = ''http://k/f/r.pdf'' then Inr (resp ''http://k/g/r.pdf'' 404 ''Not Found'' html [])
      else Inr (resp u 404 ''Not Found'' html []))"

definition site_decode :: "byte list \<Rightarrow> string option" where
  "site_decode bs =
     (if bs = [1] then Some ''1'' else if bs = [2] then Some ''2''
      else if bs = [3] then Some ''3'' else if bs = [4] then Some ''4''
      else if bs = [5] then Some ''5'' else if bs = [6] then Some ''6''
      else if bs = [7] then Some ''7'' else None)"

definition site_soup :: "string \<Rightarrow> node" where
  "site_soup s =
     (if s = ''1'' then page1 else if s = ''2'' then page2 else if s = ''3'' then page3
      else if s = ''4'' then page4 else if s = ''5'' then page5
      else if s = ''6'' then detail1 else detail2)"

definition site :: world where
  "site = \<lparr>requests_get = site_get, decode_utf8 = site_decode, BeautifulSoup = site_soup\<rparr>"


section \<open>Auxiliary lemmas\<close>

lemma rsplit_slash_None: "rsplit_slash s = None \<longleftrightarrow> CHR ''/'' \<notin> set s"
  by (induction s) (auto split: option.splits)

lemma concat_iter_content: "0 < n \<Longrightarrow> concat (iter_content n bs) = bs"
proof (induction n bs rule: iter_content.induct)
  case (1 n bs)
  show ?case
  proof (cases "bs = []")
    case True
    then show ?thesis by (simp add: iter_content.simps)
  next
    case False
    with 1 have "concat (iter_content n (drop n bs)) = drop n bs" by simp
    with False 1(2) show ?thesis by (subst iter_content.simps) simp
  qed
qed


lemma fold_file_write:
  "file_pos f = length (file_data f) \<Longrightarrow>
   fold file_write chunks f =
     \<lparr>file_data = file_data f @ concat chunks, file_pos = length (file_data f @ concat chunks)\<rparr>"
proof (induction chunks arbitrary: f)
  case Nil
  then show ?case by simp
next
  case (Cons c chunks)
  have "file_pos (file_write c f) = length (file_data (file_write c f))"
    using Cons.prems by (simp add: file_write_def)
  from Cons.IH [OF this] show ?case
    using Cons.prems by (simp add: file_write_def)
qed

lemma download_pdf_ok:
  assumes "rsplit_slash url = Some (d, fname)" "requests_get w url = Inr r"
    "status_code r = 200" "headers r ''content-type'' = Some ''application/pdf''"
  shows "download_pdf w url = Inr (fname, \<lparr>file_data = content r, file_pos = 0\<rparr>)"
  using assms
  by (simp add: download_pdf_def fold_file_write NamedTemporaryFile_def file_seek_def
      concat_iter_content)


lemma yield_headings_ok:
  "list_all has_anchor hs \<Longrightarrow> yield_headings hs = (map (\<lambda>h. Yield (listing_of h)) hs, Return)"
  by (induction hs) (auto simp: has_anchor_def listing_of_def)

lemma scrape_page:
  assumes "fetch_soup w url = Some p" "headings_ok p"
  shows "scrape_interruptions w url =
    (case next_anchor p of
       Inl e \<Rightarrow> Some (page_events p, Raise e)
     | Inr None \<Rightarrow> Some (page_events p, Return)
     | Inr (Some a_tag) \<Rightarrow>
         Option.bind (scrape_interruptions w (get_href a_tag))
           (\<lambda>(evs', out). Some (page_events p @ evs', out)))"
proof -
  from assms(1) obtain body where t: "make_request w (url_or_default url) = Inr body"
    and p: "BeautifulSoup w body = p"
    by (auto simp: fetch_soup_def split: sum.splits)
  from assms(2) obtain hs where hs: "main_headings p = Inr hs" and a: "list_all has_anchor hs"
    by (auto simp: headings_ok_def split: sum.splits)
  have q: "page_events p = map (\<lambda>h. Yield (listing_of h)) hs"
    by (simp add: page_events_def qualifying_headings_def hs)
  show ?thesis
    by (subst scrape_interruptions.simps)
      (simp add: t p hs yield_headings_ok [OF a] q split: sum.splits option.splits)
qed

lemma walk_path_prefix:
  "walk_path w url ps url' \<Longrightarrow>
   scrape_interruptions w url =
     Option.bind (scrape_interruptions w url')
       (\<lambda>(evs, out). Some (concat (map page_events ps) @ evs, out))"
proof (induction ps arbitrary: url)
  case Nil
  then show ?case by (simp add: split_def)
next
  case (Cons p ps)
  from Cons.prems obtain a_tag where f: "fetch_soup w url = Some p" and h: "headings_ok p"
    and n: "next_anchor p = Inr (Some a_tag)" and r: "walk_path w (get_href a_tag) ps url'"
    by (auto split: sum.splits option.splits)
  show ?case
    by (simp add: scrape_page [OF f h] n Cons.IH [OF r] split_def bind_assoc)
qed




lemma download_all_not_caught: "snd (download_all w url cands) = Raise e \<Longrightarrow> caught e = None"
  by (induction cands) (auto split: option.splits sum.splits prod.splits)


lemmas site_simps = site_def site_get_def site_decode_def site_soup_def resp_def html_def pdf_def

lemmas page_simps = page1_def page2_def page3_def page4_def page5_def heading_def
  mixed_heading_def pagination_def detail1_def detail2_def doc_a_def doc_b_def doc_c_def
  doc_e_def doc_n_def

lemmas query_simps = main_headings_def next_anchor_def find_tag_def find_all_def
  fetch_soup_def make_request_def url_or_default_def headings_ok_def has_anchor_def

section \<open>The PDF downloader\<close>

text \<open>
  C2. The claim: when the response to the GET of \<^verbatim>\<open>download_pdf\<close> has a status other
  than 200, the function raises a \<open>RequestError\<close> with the status and the reason of the
  response, whose URL is the one fetched after redirection. On the site above the request
  for \<^verbatim>\<open>/f/r.pdf\<close> is answered from \<^verbatim>\<open>/g/r.pdf\<close> with status 404: \<^verbatim>\<open>download_pdf\<close>
  records the URL it was called with, where \<^verbatim>\<open>make_request\<close> records the URL of the
  response.
\<close>

theorem download_pdf_records_requested_url:
  "requests_get site ''http://k/f/r.pdf'' = Inr (resp ''http://k/g/r.pdf'' 404 ''Not Found'' html []) \<and>
   download_pdf site ''http://k/f/r.pdf'' = Inl (RequestError ''http://k/f/r.pdf'' 404 ''Not Found'') \<and>
   make_request site ''http://k/f/r.pdf'' = Inl (RequestError ''http://k/g/r.pdf'' 404 ''Not Found'')"
  by (simp add: download_pdf_def make_request_def site_simps)

text \<open>
  C6. When the response has status 200 and declares a content type, \<^verbatim>\<open>download_pdf\<close>
  succeeds exactly when that content type is the string \<^verbatim>\<open>application/pdf\<close>; with any
  other value it raises \<open>WrongContentType\<close> with the message \<^verbatim>\<open>File is not a PDF\<close>, the
  URL of the response and the content type. The URL contains a \<^verbatim>\<open>/\<close>, as every URL
  that requests can fetch does.
\<close>

theorem download_pdf_content_type:
  assumes "CHR ''/'' \<in> set url" and "requests_get w url = Inr r" and "status_code r = 200"
    and "headers r ''content-type'' = Some ct"
  shows "((\<exists>res. download_pdf w url = Inr res) \<longleftrightarrow> ct = ''application/pdf'') \<and>
         (ct \<noteq> ''application/pdf'' \<longrightarrow>
            download_pdf w url = Inl (WrongContentType ''File is not a PDF'' (resp_url r) ct))"
proof -
  from assms(1) obtain d fname where "rsplit_slash url = Some (d, fname)"
    using rsplit_slash_None [of url] by (cases "rsplit_slash url") auto
  with assms(2-4) show ?thesis by (simp add: download_pdf_def)
qed

theorem download_pdf_content_type_witness:
  "download_pdf site ''http://k/f/v.pdf'' =
     Inl (WrongContentType ''File is not a PDF'' ''http://k/f/v.pdf''
            ''application/pdf;charset=utf-8'') \<and>
   (\<exists>res. download_pdf site ''http://k/f/a.pdf'' = Inr res)"
proof -
  have v: "requests_get site ''http://k/f/v.pdf'' =
      Inr (resp ''http://k/f/v.pdf'' 200 ''OK''
             [''content-type'' \<mapsto> ''application/pdf;charset=utf-8''] [37])"
    by (simp add: site_def site_get_def)
  have a: "requests_get site ''http://k/f/a.pdf'' =
      Inr (resp ''http://k/f/a.pdf'' 200 ''OK'' pdf [37, 80, 68, 70])"
    by (simp add: site_def site_get_def)
  from download_pdf_content_type [OF _ v, of "''application/pdf;charset=utf-8''"]
    download_pdf_content_type [OF _ a, of "''application/pdf''"]
  show ?thesis by (simp add: resp_def pdf_def)
qed



text \<open>
  C10. When the response has status 200 and no content type header, \<^verbatim>\<open>download_pdf\<close>
  raises \<open>KeyError\<close>; the loop over the candidates does not catch it, so that the
  extraction ends there with this exception and the remaining candidates are not
  downloaded.
\<close>

theorem missing_content_type_aborts:
  assumes "CHR ''/'' \<in> set dl" and "requests_get w dl = Inr r" and "status_code r = 200"
    and "headers r ''content-type'' = None"
  shows "download_pdf w dl = Inl (KeyError ''content-type'') \<and>
         caught (KeyError ''content-type'') = None \<and>
         (\<forall>a rest url. get_href a = Some dl \<longrightarrow>
            download_all w url (a # rest) = ([], Raise (KeyError ''content-type'')))"
proof -
  from assms(1) obtain d fname where "rsplit_slash dl = Some (d, fname)"
    using rsplit_slash_None [of dl] by (cases "rsplit_slash dl") auto
  with assms(2-4) have "download_pdf w dl = Inl (KeyError ''content-type'')"
    by (simp add: download_pdf_def)
  then show ?thesis by simp
qed

theorem missing_content_type_aborts_witness:
  "download_all site ''http://k/d'' [doc_n, doc_a] = ([], Raise (KeyError ''content-type''))"
proof -
  have n: "requests_get site ''http://k/f/n.pdf'' = Inr (resp ''http://k/f/n.pdf'' 200 ''OK'' Map.empty [37])"
    by (simp add: site_def site_get_def)
  from missing_content_type_aborts [OF _ n] show ?thesis by (simp add: resp_def doc_n_def)
qed

section \<open>The listing walker\<close>



text \<open>
  C9. When a page of the walk is answered with a status other than 200, after the pages
  \<open>ps\<close> were walked, the walker prints the line \<^verbatim>\<open>Error: {reason} ({code}) on {url}\<close>,
  with the fields of the error raised by \<^verbatim>\<open>make_request\<close>, and ends with that same
  error: the trace holds the records of \<open>ps\<close>, then the line, and no record of the
  failing page or of a later one.
\<close>

theorem listing_fetch_failure_aborts:
  assumes "walk_path w url ps url'" and "requests_get w (url_or_default url') = Inr r"
    and "status_code r \<noteq> 200"
  shows "scrape_interruptions w url =
     Some (concat (map page_events ps) @
             [Print (''Error: '' @ reason r @ '' ('' @ str_int (status_code r) @ '') on ''
                     @ resp_url r)],
           Raise (RequestError (resp_url r) (status_code r) (reason r)))"
proof -
  from assms(2,3)
  have "make_request w (url_or_default url') =
      Inl (RequestError (resp_url r) (status_code r) (reason r))"
    by (simp add: make_request_def)
  then have "scrape_interruptions w url' =
      Some ([Print (''Error: '' @ RequestError_str (resp_url r) (status_code r) (reason r))],
            Raise (RequestError (resp_url r) (status_code r) (reason r)))"
    by (subst scrape_interruptions.simps) simp
  then show ?thesis
    by (simp add: walk_path_prefix [OF assms(1)] RequestError_str_def)
qed

theorem listing_fetch_failure_aborts_witness:
  "scrape_interruptions site (Some ''http://k/3'') =
     Some ([Yield \<lparr>title = Some ''Interruptions - 06.06.2019'', link = Some ''/content/item/3069''\<rparr>,
            Print ''Error: Not Found (404) on http://k/9''],
           Raise (RequestError ''http://k/9'' 404 ''Not Found''))"
proof -
  have 1: "walk_path site (Some ''http://k/3'') [page3] (Some ''http://k/9'')"
    by (simp add: query_simps site_simps page_simps)
  have 2: "requests_get site (url_or_default (Some ''http://k/9'')) =
      Inr (resp ''http://k/9'' 404 ''Not Found'' html [])"
    by (simp add: url_or_default_def site_def site_get_def)
  have 3: "str_int 404 = ''404''"
    by (simp add: str_int_def str_nat.simps digit_char_def)
  from listing_fetch_failure_aborts [OF 1 2] show ?thesis
    by (simp add: resp_def 3 page_events_def qualifying_headings_def listing_of_def
        query_simps page_simps)
qed

text \<open>
  C3. The claim: a listing page without next anchor ends the walk without any exception,
  also when the pagination list or the main region is absent. On the site above, page
  \<^verbatim>\<open>/4\<close> has a main region with one heading and no pagination list: the walk yields
  the record and then ends with \<open>AttributeError\<close> (\<^verbatim>\<open>find\<close> on \<^verbatim>\<open>None\<close>). Page \<^verbatim>\<open>/5\<close>
  has a pagination list and no main region: the walk ends with \<open>AttributeError\<close>
  (\<^verbatim>\<open>find_all\<close> on \<^verbatim>\<open>None\<close>) before it yields anything.
\<close>

theorem missing_container_raises:
  "scrape_interruptions site (Some ''http://k/4'') =
     Some ([Yield \<lparr>title = Some ''Interruptions - 06.06.2019'', link = Some ''/content/item/3069''\<rparr>],
           Raise AttributeError) \<and>
   scrape_interruptions site (Some ''http://k/5'') = Some ([], Raise AttributeError)"
  by (simp add: scrape_interruptions.simps query_simps site_simps page_simps)

text \<open>
  C8. The claim: the title of a record is the text content of its heading, and its link
  the \<^verbatim>\<open>href\<close> of the first anchor in the heading. The walker reads the title with
  \<^verbatim>\<open>h2_tag.string\<close>, which is \<^verbatim>\<open>None\<close> as soon as the heading has more than one
  child, where the extractor reads the text of an anchor with \<^verbatim>\<open>get_text()\<close>. Page
  \<^verbatim>\<open>/2\<close> has one qualifying heading, with an anchor and a string beside it: its text
  content is \<^verbatim>\<open>Foo bar\<close>, and the record yielded has no title. The link is the one
  of the anchor.
\<close>

theorem title_is_not_text_content:
  "fetch_soup site (Some ''http://k/2'') = Some page2 \<and>
   qualifying_headings page2 = [mixed_heading] \<and>
   get_text mixed_heading = ''Foo bar'' \<and>
   scrape_interruptions site (Some ''http://k/2'') =
     Some ([Yield \<lparr>title = None, link = Some ''/x''\<rparr>], Return)"
  by (simp add: scrape_interruptions.simps qualifying_headings_def query_simps site_simps
      page_simps)

section \<open>The attachment extractor\<close>

text \<open>
  C4. When the download of a candidate fails with \<open>RequestError\<close> or \<open>WrongContentType\<close>,
  the loop prints the line of the error and goes on with the remaining candidates: the
  trace and the end of the loop are those of the remaining candidates, after the line.
  And no run of the loop, on any candidates, ends with one of these two exceptions.
\<close>

theorem download_failure_skipped:
  assumes "get_href a = Some dl" and "download_pdf w dl = Inl e"
    and "e = RequestError u c r \<or> e = WrongContentType m u ct"
  shows "(\<exists>line. caught e = Some line \<and>
            download_all w url (a # rest) =
              (Print line # fst (download_all w url rest), snd (download_all w url rest))) \<and>
         (\<forall>cands u' c' r' m' ct'.
            snd (download_all w url cands) \<noteq> Raise (RequestError u' c' r') \<and>
            snd (download_all w url cands) \<noteq> Raise (WrongContentType m' u' ct'))"
proof
  from assms(3) obtain line where "caught e = Some line" by auto
  with assms(1,2)
  show "\<exists>line. caught e = Some line \<and>
            download_all w url (a # rest) =
              (Print line # fst (download_all w url rest), snd (download_all w url rest))"
    by (simp add: split_def)
next
  show "\<forall>cands u' c' r' m' ct'.
            snd (download_all w url cands) \<noteq> Raise (RequestError u' c' r') \<and>
            snd (download_all w url cands) \<noteq> Raise (WrongContentType m' u' ct')"
    using download_all_not_caught [of w url] by fastforce
qed

theorem download_failure_skipped_witness:
  "download_all site ''http://k/d'' [doc_b, doc_c, doc_a] =
     ([Print ''Error: File is not a PDF'',
       Print ''Error: Not Found (404) on http://k/f/c.pdf'',
       Yield \<lparr>parent_link = ''http://k/d'', pdf_filename = ''a.pdf'',
              pdf_file_temp = \<lparr>file_data = [37, 80, 68, 70], file_pos = 0\<rparr>,
              download_link_text = ''a.pdf'', download_link = ''http://k/f/a.pdf''\<rparr>],
      Return)"
proof -
  have b: "download_pdf site ''http://k/f/b.pdf'' =
      Inl (WrongContentType ''File is not a PDF'' ''http://k/f/b.pdf'' ''text/html'')"
    by (simp add: download_pdf_def site_simps)
  have c: "download_pdf site ''http://k/f/c.pdf'' =
      Inl (RequestError ''http://k/f/c.pdf'' 404 ''Not Found'')"
    by (simp add: download_pdf_def site_simps)
  have g: "requests_get site ''http://k/f/a.pdf'' =
      Inr (resp ''http://k/f/a.pdf'' 200 ''OK'' pdf [37, 80, 68, 70])"
    by (simp add: site_def site_get_def)
  have rs: "rsplit_slash ''http://k/f/a.pdf'' = Some (''http://k/f'', ''a.pdf'')"
    by simp
  have a: "download_pdf site ''http://k/f/a.pdf'' =
      Inr (''a.pdf'', \<lparr>file_data = [37, 80, 68, 70], file_pos = 0\<rparr>)"
    using download_pdf_ok [OF rs g] by (simp add: resp_def pdf_def)
  have n: "str_int 404 = ''404''"
    by (simp add: str_int_def str_nat.simps digit_char_def)
  have hb: "get_href doc_b = Some ''http://k/f/b.pdf''" by (simp add: doc_b_def)
  have hc: "get_href doc_c = Some ''http://k/f/c.pdf''" by (simp add: doc_c_def)
  have rest: "download_all site ''http://k/d'' [doc_a] =
      ([Yield \<lparr>parent_link = ''http://k/d'', pdf_filename = ''a.pdf'',
               pdf_file_temp = \<lparr>file_data = [37, 80, 68, 70], file_pos = 0\<rparr>,
               download_link_text = ''a.pdf'', download_link = ''http://k/f/a.pdf''\<rparr>], Return)"
    by (simp add: doc_a_def a)
  from download_failure_skipped [OF hb b, where m = "''File is not a PDF''"
      and u = "''http://k/f/b.pdf''" and ct = "''text/html''" and url = "''http://k/d''"
      and rest = "[doc_c, doc_a]"]
  have 1: "download_all site ''http://k/d'' [doc_b, doc_c, doc_a] =
      (Print ''Error: File is not a PDF'' # fst (download_all site ''http://k/d'' [doc_c, doc_a]),
       snd (download_all site ''http://k/d'' [doc_c, doc_a]))"
    by (auto simp del: download_all.simps)
  from download_failure_skipped [OF hc c, where u = "''http://k/f/c.pdf''" and c = 404
      and r = "''Not Found''" and url = "''http://k/d''" and rest = "[doc_a]"]
  have 2: "download_all site ''http://k/d'' [doc_c, doc_a] =
      (Print ''Error: Not Found (404) on http://k/f/c.pdf'' #
         fst (download_all site ''http://k/d'' [doc_a]),
       snd (download_all site ''http://k/d'' [doc_a]))"
    by (auto simp del: download_all.simps simp add: RequestError_str_def n)
  show ?thesis
    unfolding 1 2 rest by simp
qed



end
